theory Spec2Isabelle
  imports Main "HOL-Library.Word"
begin

unbundle bit_operations_syntax

section \<open>Key management of the OQS provider (oqsprov/oqs_kmgmt.c)\<close>

text \<open>
  The functions of \<^verbatim>\<open>oqs_kmgmt.c\<close> are embedded as HOL functions. A C pointer that may
  be \<^verbatim>\<open>NULL\<close> is an \<open>option\<close> (\<open>None\<close> is \<^verbatim>\<open>NULL\<close>), a buffer is the list of its bytes,
  an \<^verbatim>\<open>int\<close> used as a truth value (0 or non-zero) is a \<open>bool\<close>, and the selection
  mask, a C \<^verbatim>\<open>int\<close>, is a 32-bit word. A function that writes through a pointer returns
  the new value of what it wrote beside its result.
\<close>

subsection \<open>Data\<close>

type_synonym byte = "8 word"

text \<open>
  The fields of \<^verbatim>\<open>OQSX_KEY\<close> (declared in \<^verbatim>\<open>oqsx.h\<close>) that this file reads and writes.
  \<open>pubkeylen\<close> and \<open>privkeylen\<close> are the lengths the constructor stored in the object
  for its algorithm; no function of this file assigns them.
\<close>

record OQSX_KEY =
  oqs_name :: string
  pubkey :: "byte list option"
  privkey :: "byte list option"
  pubkeylen :: nat
  privkeylen :: nat
  propq :: "byte list option"

text \<open>The selection bits of OpenSSL's \<^verbatim>\<open>core_dispatch.h\<close>.\<close>

definition OSSL_KEYMGMT_SELECT_PRIVATE_KEY :: "32 word" where
  "OSSL_KEYMGMT_SELECT_PRIVATE_KEY = 0x01"

definition OSSL_KEYMGMT_SELECT_PUBLIC_KEY :: "32 word" where
  "OSSL_KEYMGMT_SELECT_PUBLIC_KEY = 0x02"

definition OSSL_KEYMGMT_SELECT_DOMAIN_PARAMETERS :: "32 word" where
  "OSSL_KEYMGMT_SELECT_DOMAIN_PARAMETERS = 0x04"

definition OSSL_KEYMGMT_SELECT_OTHER_PARAMETERS :: "32 word" where
  "OSSL_KEYMGMT_SELECT_OTHER_PARAMETERS = 0x80"

definition OSSL_KEYMGMT_SELECT_ALL_PARAMETERS :: "32 word" where
  "OSSL_KEYMGMT_SELECT_ALL_PARAMETERS =
     OSSL_KEYMGMT_SELECT_DOMAIN_PARAMETERS OR OSSL_KEYMGMT_SELECT_OTHER_PARAMETERS"

definition OSSL_KEYMGMT_SELECT_KEYPAIR :: "32 word" where
  "OSSL_KEYMGMT_SELECT_KEYPAIR =
     OSSL_KEYMGMT_SELECT_PRIVATE_KEY OR OSSL_KEYMGMT_SELECT_PUBLIC_KEY"

subsection \<open>Library functions, by their documented contracts\<close>

text \<open>
  \<^verbatim>\<open>strcmp\<close> returns 0 exactly on equal strings. \<^verbatim>\<open>CRYPTO_memcmp(a, b, len)\<close> returns 0
  exactly when the first \<open>len\<close> bytes of the two buffers agree; it reads both buffers,
  so with \<open>len > 0\<close> a \<^verbatim>\<open>NULL\<close> buffer is a read through a null pointer, which the model
  returns as a fault. Only whether the result is 0 is used by the callers. The buffers
  handed over are taken to hold \<open>len\<close> bytes, as an allocated key buffer does.
\<close>

datatype fault = NullRead

definition strcmp :: "string \<Rightarrow> string \<Rightarrow> int" where
  "strcmp s1 s2 = (if s1 = s2 then 0 else 1)"

definition CRYPTO_memcmp :: "byte list option \<Rightarrow> byte list option \<Rightarrow> nat \<Rightarrow> fault + int" where
  "CRYPTO_memcmp a b len =
     (if len = 0 then Inr 0
      else (case a of
              None \<Rightarrow> Inl NullRead
            | Some x \<Rightarrow>
                (case b of
                   None \<Rightarrow> Inl NullRead
                 | Some y \<Rightarrow> Inr (if take len x = take len y then 0 else 1))))"

subsection \<open>oqsx_has\<close>

definition oqsx_has :: "OQSX_KEY option \<Rightarrow> 32 word \<Rightarrow> bool" where
  "oqsx_has keydata selection =
     (case keydata of
        None \<Rightarrow> False
      | Some key \<Rightarrow>
          (let ok = True;
               ok = (if selection AND OSSL_KEYMGMT_SELECT_PUBLIC_KEY \<noteq> 0
                     then ok \<and> pubkey key \<noteq> None else ok);
               ok = (if selection AND OSSL_KEYMGMT_SELECT_PRIVATE_KEY \<noteq> 0
                     then ok \<and> privkey key \<noteq> None else ok)
           in ok))"

subsection \<open>oqsx_match\<close>

text \<open>
  The expression \<^verbatim>\<open>ok && (buf1 == NULL || CRYPTO_memcmp(buf1, buf2, len) == 0)\<close>, which
  \<^verbatim>\<open>oqsx_match\<close> evaluates for the private and for the public part. C evaluates it from
  the left and stops as soon as the value is known.
\<close>

definition ok_and_null_or_equal ::
  "bool \<Rightarrow> byte list option \<Rightarrow> byte list option \<Rightarrow> nat \<Rightarrow> fault + bool" where
  "ok_and_null_or_equal ok buf1 buf2 len =
     (if \<not> ok then Inr False
      else if buf1 = None then Inr True
      else (case CRYPTO_memcmp buf1 buf2 len of
              Inl f \<Rightarrow> Inl f
            | Inr r \<Rightarrow> Inr (r = 0)))"

text \<open>
  \<^verbatim>\<open>oqsx_match\<close> reads both keys without a test for \<^verbatim>\<open>NULL\<close>, so the model takes two key
  objects.
\<close>

definition oqsx_match :: "OQSX_KEY \<Rightarrow> OQSX_KEY \<Rightarrow> 32 word \<Rightarrow> fault + bool" where
  "oqsx_match key1 key2 selection =
     (let ok = True;
          ok = (if selection AND OSSL_KEYMGMT_SELECT_DOMAIN_PARAMETERS \<noteq> 0
                then ok \<and> strcmp (oqs_name key1) (oqs_name key2) = 0 else ok)
      in (case (if selection AND OSSL_KEYMGMT_SELECT_PRIVATE_KEY \<noteq> 0
                then (if (privkey key1 = None \<and> privkey key2 \<noteq> None)
                         \<or> (privkey key1 \<noteq> None \<and> privkey key2 = None)
                         \<or> strcmp (oqs_name key1) (oqs_name key2) \<noteq> 0
                      then Inr False
                      else ok_and_null_or_equal ok (privkey key1) (privkey key2)
                             (privkeylen key1))
                else Inr ok) of
            Inl f \<Rightarrow> Inl f
          | Inr ok \<Rightarrow>
              (if selection AND OSSL_KEYMGMT_SELECT_PUBLIC_KEY \<noteq> 0
               then (if (pubkey key1 \<noteq> None \<and> pubkey key2 \<noteq> None)
                        \<or> strcmp (oqs_name key1) (oqs_name key2) \<noteq> 0
                     then Inr False
                     else ok_and_null_or_equal ok (pubkey key1) (pubkey key2)
                            (pubkeylen key1))
               else Inr ok)))"


subsection \<open>Parameters (OpenSSL's params.h and param_build.h)\<close>

datatype param_type =
    OSSL_PARAM_INTEGER
  | OSSL_PARAM_UNSIGNED_INTEGER
  | OSSL_PARAM_REAL
  | OSSL_PARAM_UTF8_STRING
  | OSSL_PARAM_OCTET_STRING
  | OSSL_PARAM_UTF8_PTR
  | OSSL_PARAM_OCTET_PTR

text \<open>
  An \<^verbatim>\<open>OSSL_PARAM\<close>; its field \<^verbatim>\<open>key\<close> is \<open>param_key\<close> here. A parameter array is the
  list of its elements before the end marker.
\<close>

record OSSL_PARAM =
  param_key :: string
  data_type :: param_type
  data :: "byte list option"
  data_size :: nat
  return_size :: nat

definition OSSL_PKEY_PARAM_PUB_KEY :: string where
  "OSSL_PKEY_PARAM_PUB_KEY = ''pub''"

definition OSSL_PKEY_PARAM_PRIV_KEY :: string where
  "OSSL_PKEY_PARAM_PRIV_KEY = ''priv''"

definition OSSL_PKEY_PARAM_ENCODED_PUBLIC_KEY :: string where
  "OSSL_PKEY_PARAM_ENCODED_PUBLIC_KEY = ''encoded-pub-key''"

definition OSSL_PKEY_PARAM_PROPERTIES :: string where
  "OSSL_PKEY_PARAM_PROPERTIES = ''properties''"

text \<open>The first element of the array with the given key.\<close>

fun OSSL_PARAM_locate_const :: "OSSL_PARAM list \<Rightarrow> string \<Rightarrow> OSSL_PARAM option" where
  "OSSL_PARAM_locate_const [] k = None"
| "OSSL_PARAM_locate_const (p # ps) k =
     (if strcmp k (param_key p) = 0 then Some p else OSSL_PARAM_locate_const ps k)"

text \<open>\<^verbatim>\<open>OSSL_PARAM_locate\<close> returns \<^verbatim>\<open>NULL\<close> for a \<^verbatim>\<open>NULL\<close> array.\<close>

definition OSSL_PARAM_locate :: "OSSL_PARAM list option \<Rightarrow> string \<Rightarrow> OSSL_PARAM option" where
  "OSSL_PARAM_locate params k =
     (case params of None \<Rightarrow> None | Some ps \<Rightarrow> OSSL_PARAM_locate_const ps k)"

text \<open>
  \<^verbatim>\<open>OSSL_PARAM_set_octet_string(p, val, len)\<close>: the result and the element as written.
  It fails for a \<^verbatim>\<open>NULL\<close> value, a wrong type or a buffer of the element that is too
  small; an element without a buffer only gets its \<open>return_size\<close>.
\<close>

definition OSSL_PARAM_set_octet_string ::
  "OSSL_PARAM \<Rightarrow> byte list option \<Rightarrow> nat \<Rightarrow> bool \<times> OSSL_PARAM" where
  "OSSL_PARAM_set_octet_string p val len =
     (case val of
        None \<Rightarrow> (False, p\<lparr>return_size := 0\<rparr>)
      | Some v \<Rightarrow>
          (case data p of
             None \<Rightarrow> (True, p\<lparr>return_size := len\<rparr>)
           | Some d \<Rightarrow>
               if data_type p \<noteq> OSSL_PARAM_OCTET_STRING \<or> data_size p < len
               then (False, p\<lparr>return_size := len\<rparr>)
               else (True, p\<lparr>return_size := len, data := Some (take len v @ drop len d)\<rparr>)))"

text \<open>
  \<^verbatim>\<open>OSSL_PARAM_get_octet_string(p, &val, max_len, &used_len)\<close>: on success the buffer
  \<open>val\<close> points to afterwards and \<open>used_len\<close>. When \<open>val\<close> is \<^verbatim>\<open>NULL\<close> a buffer is allocated
  (\<open>malloc_ok\<close> says whether the allocation succeeds) and \<open>max_len\<close> is ignored;
  otherwise the bytes are copied into the buffer given, which must have room. It fails
  for a wrong type and for an element without data, and then stores nothing.
\<close>

definition OSSL_PARAM_get_octet_string ::
  "bool \<Rightarrow> OSSL_PARAM \<Rightarrow> byte list option \<Rightarrow> nat \<Rightarrow> (byte list \<times> nat) option" where
  "OSSL_PARAM_get_octet_string malloc_ok p val max_len =
     (if data_type p \<noteq> OSSL_PARAM_OCTET_STRING then None
      else (case data p of
              None \<Rightarrow> None
            | Some d \<Rightarrow>
                (let sz = data_size p in
                 (case val of
                    None \<Rightarrow> if malloc_ok then Some (take sz d, sz) else None
                  | Some buf \<Rightarrow>
                      if max_len < sz then None
                      else Some (take sz d @ drop sz buf, sz)))))"

text \<open>
  A parameter builder is the list of the elements pushed to it. \<^verbatim>\<open>OSSL_PARAM_BLD_new\<close>
  gives an empty builder, \<^verbatim>\<open>OSSL_PARAM_BLD_to_param\<close> the array of the elements pushed;
  each allocates, and the boolean says whether the allocation succeeds.
\<close>

type_synonym OSSL_PARAM_BLD = "OSSL_PARAM list"

definition OSSL_PARAM_BLD_new :: "bool \<Rightarrow> OSSL_PARAM_BLD option" where
  "OSSL_PARAM_BLD_new alloc_ok = (if alloc_ok then Some [] else None)"

definition OSSL_PARAM_BLD_to_param :: "bool \<Rightarrow> OSSL_PARAM_BLD \<Rightarrow> OSSL_PARAM list option" where
  "OSSL_PARAM_BLD_to_param alloc_ok bld = (if alloc_ok then Some bld else None)"

subsection \<open>Memory and the error queue\<close>

text \<open>
  \<^verbatim>\<open>OPENSSL_clear_free(ptr, num)\<close> overwrites \<open>num\<close> bytes of the buffer with zeros and
  releases it; for \<^verbatim>\<open>NULL\<close> it does nothing. The model returns the contents the released
  buffers are left with. \<^verbatim>\<open>OPENSSL_strdup\<close> copies a C string (the bytes before the
  first 0) unless the allocation fails.
\<close>

definition OPENSSL_clear_free :: "byte list option \<Rightarrow> nat \<Rightarrow> byte list list" where
  "OPENSSL_clear_free ptr num =
     (case ptr of
        None \<Rightarrow> []
      | Some b \<Rightarrow> [replicate (min num (length b)) 0 @ drop num b])"

definition OPENSSL_strdup :: "bool \<Rightarrow> byte list \<Rightarrow> byte list option" where
  "OPENSSL_strdup alloc_ok s = (if alloc_ok then Some (takeWhile (\<lambda>b. b \<noteq> 0) s) else None)"

datatype err_lib = ERR_LIB_USER | ERR_LIB_PROV

datatype err_reason = OQSPROV_UNEXPECTED_NULL | ERR_R_MALLOC_FAILURE

type_synonym err_entry = "err_lib \<times> err_reason"

subsection \<open>oqsx_import\<close>

text \<open>
  \<^verbatim>\<open>oqsx_key_fromdata\<close> is defined in another file of the provider; \<^verbatim>\<open>oqsx_import\<close> is
  modelled for any such function \<open>fromdata\<close>, which takes the key, the parameters and
  the flag \<^verbatim>\<open>include_private\<close> and returns its result and the key as it leaves it.
\<close>

type_synonym key_fromdata = "OQSX_KEY \<Rightarrow> OSSL_PARAM list \<Rightarrow> int \<Rightarrow> bool \<times> OQSX_KEY"

record import_result =
  im_ret :: bool
  im_key :: "OQSX_KEY option"
  im_errs :: "err_entry list"

definition oqsx_import ::
  "key_fromdata \<Rightarrow> OQSX_KEY option \<Rightarrow> 32 word \<Rightarrow> OSSL_PARAM list \<Rightarrow> import_result" where
  "oqsx_import fromdata keydata selection params =
     (case keydata of
        None \<Rightarrow>
          \<lparr>im_ret = False, im_key = None,
           im_errs = [(ERR_LIB_USER, OQSPROV_UNEXPECTED_NULL)]\<rparr>
      | Some key \<Rightarrow>
          if selection AND OSSL_KEYMGMT_SELECT_ALL_PARAMETERS \<noteq> 0
          then (case fromdata key params 1 of
                  (r, key') \<Rightarrow> \<lparr>im_ret = r, im_key = Some key', im_errs = []\<rparr>)
          else \<lparr>im_ret = False, im_key = Some key, im_errs = []\<rparr>)"

subsection \<open>oqsx_export\<close>

text \<open>
  The result, the parameter arrays the callback \<open>param_cb\<close> was called with, in order,
  and the errors raised. \<open>bld_alloc_ok\<close> and \<open>param_alloc_ok\<close> say whether the
  allocations of \<^verbatim>\<open>OSSL_PARAM_BLD_new\<close> and \<^verbatim>\<open>OSSL_PARAM_BLD_to_param\<close> succeed.

  The local \<^verbatim>\<open>params\<close> is \<^verbatim>\<open>NULL\<close> where the two \<^verbatim>\<open>OSSL_PARAM_locate\<close> calls read it. An
  element they found would be written in that array, which is replaced by the
  builder's array before the callback is called, so of
  \<^verbatim>\<open>OSSL_PARAM_set_octet_string\<close> only the result is used: a failure leaves through
  \<^verbatim>\<open>goto err\<close>.
\<close>

record export_result =
  ex_ret :: bool
  ex_calls :: "OSSL_PARAM list list"
  ex_errs :: "err_entry list"

definition oqsx_export ::
  "bool \<Rightarrow> bool \<Rightarrow> OQSX_KEY option \<Rightarrow> 32 word \<Rightarrow> (OSSL_PARAM list \<Rightarrow> bool) \<Rightarrow> export_result" where
  "oqsx_export bld_alloc_ok param_alloc_ok keydata selection param_cb =
     (let params = None in
      (case keydata of
         None \<Rightarrow>
           \<lparr>ex_ret = False, ex_calls = [], ex_errs = [(ERR_LIB_USER, OQSPROV_UNEXPECTED_NULL)]\<rparr>
       | Some key \<Rightarrow>
           (case OSSL_PARAM_BLD_new bld_alloc_ok of
              None \<Rightarrow>
                \<lparr>ex_ret = False, ex_calls = [],
                 ex_errs = [(ERR_LIB_USER, OQSPROV_UNEXPECTED_NULL)]\<rparr>
            | Some tmpl \<Rightarrow>
                if (selection AND OSSL_KEYMGMT_SELECT_ALL_PARAMETERS \<noteq> 0
                      \<or> selection AND OSSL_KEYMGMT_SELECT_KEYPAIR \<noteq> 0)
                   \<and> ((case OSSL_PARAM_locate params OSSL_PKEY_PARAM_PUB_KEY of
                          None \<Rightarrow> False
                        | Some p \<Rightarrow>
                            \<not> fst (OSSL_PARAM_set_octet_string p (pubkey key) (pubkeylen key)))
                      \<or> (case OSSL_PARAM_locate params OSSL_PKEY_PARAM_PRIV_KEY of
                            None \<Rightarrow> False
                          | Some p \<Rightarrow>
                              \<not> fst (OSSL_PARAM_set_octet_string p (privkey key)
                                       (privkeylen key))))
                then \<lparr>ex_ret = False, ex_calls = [], ex_errs = []\<rparr>
                else (case OSSL_PARAM_BLD_to_param param_alloc_ok tmpl of
                        None \<Rightarrow> \<lparr>ex_ret = False, ex_calls = [], ex_errs = []\<rparr>
                      | Some params \<Rightarrow>
                          \<lparr>ex_ret = param_cb params, ex_calls = [params], ex_errs = []\<rparr>))))"

subsection \<open>set_property_query and oqsx_set_params\<close>

text \<open>
  \<^verbatim>\<open>set_property_query\<close> releases the old query, then copies the new one unless it is
  \<^verbatim>\<open>NULL\<close>; \<open>strdup_ok\<close> says whether the copy can be allocated.
\<close>

definition set_property_query ::
  "bool \<Rightarrow> OQSX_KEY \<Rightarrow> byte list option \<Rightarrow> bool \<times> OQSX_KEY \<times> err_entry list" where
  "set_property_query strdup_ok oqsxkey propq_new =
     (let oqsxkey = oqsxkey\<lparr>propq := None\<rparr> in
      (case propq_new of
         None \<Rightarrow> (True, oqsxkey, [])
       | Some s \<Rightarrow>
           (case OPENSSL_strdup strdup_ok s of
              None \<Rightarrow> (False, oqsxkey, [(ERR_LIB_PROV, ERR_R_MALLOC_FAILURE)])
            | Some c \<Rightarrow> (True, oqsxkey\<lparr>propq := Some c\<rparr>, []))))"

text \<open>
  \<^verbatim>\<open>oqsx_set_params\<close> reads the key without a test for \<^verbatim>\<open>NULL\<close>, so the model takes a key
  object. It returns the result, the key as the call leaves it, the contents of the
  buffers released through \<^verbatim>\<open>OPENSSL_clear_free\<close> and the errors raised.
\<close>

record set_params_result =
  sp_ret :: bool
  sp_key :: OQSX_KEY
  sp_cleared :: "byte list list"
  sp_errs :: "err_entry list"

definition oqsx_set_params ::
  "bool \<Rightarrow> bool \<Rightarrow> OQSX_KEY \<Rightarrow> OSSL_PARAM list \<Rightarrow> set_params_result" where
  "oqsx_set_params malloc_ok strdup_ok oqsxkey params =
     (case (case OSSL_PARAM_locate_const params OSSL_PKEY_PARAM_ENCODED_PUBLIC_KEY of
              None \<Rightarrow> Some (oqsxkey, [])
            | Some p \<Rightarrow>
                if data_size p \<noteq> pubkeylen oqsxkey then None
                else (case OSSL_PARAM_get_octet_string malloc_ok p (pubkey oqsxkey)
                             (pubkeylen oqsxkey) of
                        None \<Rightarrow> None
                      | Some (val, used_len) \<Rightarrow>
                          Some (oqsxkey\<lparr>pubkey := Some val, privkey := None\<rparr>,
                                OPENSSL_clear_free (privkey oqsxkey) (privkeylen oqsxkey)))) of
        None \<Rightarrow> \<lparr>sp_ret = False, sp_key = oqsxkey, sp_cleared = [], sp_errs = []\<rparr>
      | Some (oqsxkey', cleared) \<Rightarrow>
          (case OSSL_PARAM_locate_const params OSSL_PKEY_PARAM_PROPERTIES of
             None \<Rightarrow> \<lparr>sp_ret = True, sp_key = oqsxkey', sp_cleared = cleared, sp_errs = []\<rparr>
           | Some p \<Rightarrow>
               if data_type p \<noteq> OSSL_PARAM_UTF8_STRING
               then \<lparr>sp_ret = False, sp_key = oqsxkey', sp_cleared = cleared, sp_errs = []\<rparr>
               else (case set_property_query strdup_ok oqsxkey' (data p) of
                       (ok, oqsxkey'', errs) \<Rightarrow>
                         \<lparr>sp_ret = ok, sp_key = oqsxkey'', sp_cleared = cleared,
                          sp_errs = errs\<rparr>)))"

subsection \<open>oqsx_load\<close>

text \<open>
  \<open>reference\<close> is the address of a cell that holds a key pointer; \<open>mem\<close> gives the
  contents of such cells, and the function returns the pointer it hands out and the
  memory as it leaves it. \<open>sizeof_key\<close> is the platform's \<^verbatim>\<open>sizeof(key)\<close>, the size of a
  key pointer.
\<close>

type_synonym key_cells = "nat \<Rightarrow> OQSX_KEY option"

definition oqsx_load :: "nat \<Rightarrow> key_cells \<Rightarrow> nat \<Rightarrow> nat \<Rightarrow> OQSX_KEY option \<times> key_cells" where
  "oqsx_load sizeof_key mem reference reference_sz =
     (if reference_sz = sizeof_key
      then (let key = mem reference in (key, mem(reference := None)))
      else (None, mem))"

section \<open>Example objects\<close>

text \<open>
  A key object for the algorithm of the specification's scenario (public key of 1184
  bytes, private key of 2400 bytes) with both buffers filled, the same object as the
  constructor leaves it, with no key material, and a second key pair of the algorithm.
\<close>

definition kyber768_key :: OQSX_KEY where
  "kyber768_key =
     \<lparr>oqs_name = ''Kyber768'', pubkey = Some (replicate 1184 1),
      privkey = Some (replicate 2400 2), pubkeylen = 1184, privkeylen = 2400,
      propq = None\<rparr>"

definition kyber768_fresh :: OQSX_KEY where
  "kyber768_fresh =
     \<lparr>oqs_name = ''Kyber768'', pubkey = None, privkey = None, pubkeylen = 1184,
      privkeylen = 2400, propq = None\<rparr>"

definition kyber768_other :: OQSX_KEY where
  "kyber768_other =
     \<lparr>oqs_name = ''Kyber768'', pubkey = Some (replicate 1184 3),
      privkey = Some (replicate 2400 4), pubkeylen = 1184, privkeylen = 2400,
      propq = None\<rparr>"


text \<open>An encoded public key of the right length, and one that is a byte short.\<close>

definition encoded_pub_1184 :: OSSL_PARAM where
  "encoded_pub_1184 =
     \<lparr>param_key = OSSL_PKEY_PARAM_ENCODED_PUBLIC_KEY, data_type = OSSL_PARAM_OCTET_STRING,
      data = Some (replicate 1184 7), data_size = 1184, return_size = 0\<rparr>"

definition encoded_pub_1183 :: OSSL_PARAM where
  "encoded_pub_1183 =
     \<lparr>param_key = OSSL_PKEY_PARAM_ENCODED_PUBLIC_KEY, data_type = OSSL_PARAM_OCTET_STRING,
      data = Some (replicate 1183 7), data_size = 1183, return_size = 0\<rparr>"

section \<open>Properties\<close>

subsection \<open>Auxiliary facts\<close>

lemmas sel_defs =
  OSSL_KEYMGMT_SELECT_PRIVATE_KEY_def OSSL_KEYMGMT_SELECT_PUBLIC_KEY_def
  OSSL_KEYMGMT_SELECT_DOMAIN_PARAMETERS_def OSSL_KEYMGMT_SELECT_OTHER_PARAMETERS_def
  OSSL_KEYMGMT_SELECT_ALL_PARAMETERS_def OSSL_KEYMGMT_SELECT_KEYPAIR_def

lemma strcmp_zero_iff: "strcmp s1 s2 = 0 \<longleftrightarrow> s1 = s2"
  by (simp add: strcmp_def)

lemma ok_and_null_or_equal_present:
  "ok_and_null_or_equal ok (Some a) (Some b) len = Inr (ok \<and> take len a = take len b)"
  by (simp add: ok_and_null_or_equal_def CRYPTO_memcmp_def)

lemma ok_and_null_or_equal_absent:
  "ok_and_null_or_equal ok None buf2 len = Inr ok"
  by (simp add: ok_and_null_or_equal_def)


text \<open>
  The private part of \<^verbatim>\<open>oqsx_match\<close> never reads through a null pointer: the bytes are
  compared only when both buffers are present.
\<close>

lemma private_stage:
  "(if (privkey k1 = None \<and> privkey k2 \<noteq> None)
       \<or> (privkey k1 \<noteq> None \<and> privkey k2 = None)
       \<or> strcmp (oqs_name k1) (oqs_name k2) \<noteq> 0
    then Inr False
    else ok_and_null_or_equal ok (privkey k1) (privkey k2) (privkeylen k1))
   = Inr (ok \<and> oqs_name k1 = oqs_name k2 \<and>
          (case privkey k1 of
             None \<Rightarrow> privkey k2 = None
           | Some a \<Rightarrow>
               (case privkey k2 of
                  None \<Rightarrow> False
                | Some b \<Rightarrow> take (privkeylen k1) a = take (privkeylen k1) b)))"
  by (cases "privkey k1"; cases "privkey k2")
    (simp_all add: strcmp_zero_iff ok_and_null_or_equal_present ok_and_null_or_equal_absent)

lemma oqsx_match_public_bit:
  assumes "sel AND OSSL_KEYMGMT_SELECT_PUBLIC_KEY \<noteq> 0"
    and "(pubkey k1 \<noteq> None \<and> pubkey k2 \<noteq> None) \<or> oqs_name k1 \<noteq> oqs_name k2"
  shows "oqsx_match k1 k2 sel = Inr False"
  unfolding oqsx_match_def Let_def private_stage
  using assms by (auto simp add: strcmp_zero_iff)





lemma keypair_bits_clear:
  assumes "sel AND OSSL_KEYMGMT_SELECT_KEYPAIR = 0"
  shows "sel AND OSSL_KEYMGMT_SELECT_PUBLIC_KEY = 0"
    and "sel AND OSSL_KEYMGMT_SELECT_PRIVATE_KEY = 0"
proof -
  have "sel AND OSSL_KEYMGMT_SELECT_PUBLIC_KEY
          = (sel AND OSSL_KEYMGMT_SELECT_KEYPAIR) AND OSSL_KEYMGMT_SELECT_PUBLIC_KEY"
    by (simp add: sel_defs and.assoc)
  with assms show "sel AND OSSL_KEYMGMT_SELECT_PUBLIC_KEY = 0" by simp
  have "sel AND OSSL_KEYMGMT_SELECT_PRIVATE_KEY
          = (sel AND OSSL_KEYMGMT_SELECT_KEYPAIR) AND OSSL_KEYMGMT_SELECT_PRIVATE_KEY"
    by (simp add: sel_defs and.assoc)
  with assms show "sel AND OSSL_KEYMGMT_SELECT_PRIVATE_KEY = 0" by simp
qed

lemma locate_null: "OSSL_PARAM_locate None k = None"
  by (simp add: OSSL_PARAM_locate_def)

text \<open>What \<^verbatim>\<open>oqsx_export\<close> does, case by case.\<close>

lemma oqsx_export_cases:
  "oqsx_export bld_alloc_ok param_alloc_ok keydata sel cb =
     (case keydata of
        None \<Rightarrow>
          \<lparr>ex_ret = False, ex_calls = [], ex_errs = [(ERR_LIB_USER, OQSPROV_UNEXPECTED_NULL)]\<rparr>
      | Some k \<Rightarrow>
          if \<not> bld_alloc_ok
          then \<lparr>ex_ret = False, ex_calls = [],
                ex_errs = [(ERR_LIB_USER, OQSPROV_UNEXPECTED_NULL)]\<rparr>
          else if \<not> param_alloc_ok
          then \<lparr>ex_ret = False, ex_calls = [], ex_errs = []\<rparr>
          else \<lparr>ex_ret = cb [], ex_calls = [[]], ex_errs = []\<rparr>)"
  by (simp add: oqsx_export_def Let_def locate_null OSSL_PARAM_BLD_new_def
      OSSL_PARAM_BLD_to_param_def split: option.splits)

subsection \<open>oqsx_has\<close>

text \<open>
  C5. For a key object that is not null and any selection mask, \<^verbatim>\<open>oqsx_has\<close> returns true
  exactly when the public key is present if the mask has the public-key bit and the
  private key is present if the mask has the private-key bit. A selection with no
  key-part bit, such as one that asks for the domain parameters only, is always
  satisfied.
\<close>

theorem oqsx_has_iff_parts_present:
  "oqsx_has (Some k) sel =
     ((sel AND OSSL_KEYMGMT_SELECT_PUBLIC_KEY \<noteq> 0 \<longrightarrow> pubkey k \<noteq> None) \<and>
      (sel AND OSSL_KEYMGMT_SELECT_PRIVATE_KEY \<noteq> 0 \<longrightarrow> privkey k \<noteq> None))
   \<and> (sel AND OSSL_KEYMGMT_SELECT_KEYPAIR = 0 \<longrightarrow> oqsx_has (Some k) sel)
   \<and> oqsx_has (Some k) OSSL_KEYMGMT_SELECT_DOMAIN_PARAMETERS"
proof (intro conjI impI)
  show "oqsx_has (Some k) sel =
     ((sel AND OSSL_KEYMGMT_SELECT_PUBLIC_KEY \<noteq> 0 \<longrightarrow> pubkey k \<noteq> None) \<and>
      (sel AND OSSL_KEYMGMT_SELECT_PRIVATE_KEY \<noteq> 0 \<longrightarrow> privkey k \<noteq> None))"
    by (simp add: oqsx_has_def Let_def)
next
  assume "sel AND OSSL_KEYMGMT_SELECT_KEYPAIR = 0"
  then show "oqsx_has (Some k) sel"
    by (simp add: oqsx_has_def Let_def keypair_bits_clear)
next
  show "oqsx_has (Some k) OSSL_KEYMGMT_SELECT_DOMAIN_PARAMETERS"
    by (simp add: oqsx_has_def Let_def sel_defs)
qed

theorem oqsx_has_iff_parts_present_witness:
  "oqsx_has (Some kyber768_key) OSSL_KEYMGMT_SELECT_KEYPAIR
   \<and> \<not> oqsx_has (Some kyber768_fresh) OSSL_KEYMGMT_SELECT_KEYPAIR
   \<and> OSSL_KEYMGMT_SELECT_ALL_PARAMETERS AND OSSL_KEYMGMT_SELECT_KEYPAIR = 0
   \<and> oqsx_has (Some kyber768_fresh) OSSL_KEYMGMT_SELECT_ALL_PARAMETERS"
  using oqsx_has_iff_parts_present [of kyber768_key OSSL_KEYMGMT_SELECT_KEYPAIR]
    oqsx_has_iff_parts_present [of kyber768_fresh OSSL_KEYMGMT_SELECT_KEYPAIR]
    oqsx_has_iff_parts_present [of kyber768_fresh OSSL_KEYMGMT_SELECT_ALL_PARAMETERS]
  by (simp add: kyber768_key_def kyber768_fresh_def sel_defs)

text \<open>
  C9. On a null key handle \<^verbatim>\<open>oqsx_has\<close> returns false for every selection mask, also
  for one that asks for the domain parameters only; it reads nothing through the
  handle.
\<close>

theorem oqsx_has_null_false:
  "oqsx_has None sel = False
   \<and> oqsx_has None OSSL_KEYMGMT_SELECT_DOMAIN_PARAMETERS = False"
  by (simp add: oqsx_has_def)

subsection \<open>oqsx_match\<close>

text \<open>
  C2. With the public-key bit in the selection, \<^verbatim>\<open>oqsx_match\<close> returns false whenever
  both keys have a public key present, and whenever the algorithm names differ. So a
  key with a public key does not match itself on the public part.
\<close>

theorem oqsx_match_public_false:
  "(sel AND OSSL_KEYMGMT_SELECT_PUBLIC_KEY \<noteq> 0 \<and>
      ((pubkey k1 \<noteq> None \<and> pubkey k2 \<noteq> None) \<or> oqs_name k1 \<noteq> oqs_name k2)
     \<longrightarrow> oqsx_match k1 k2 sel = Inr False)
   \<and> (pubkey k \<noteq> None \<longrightarrow> oqsx_match k k OSSL_KEYMGMT_SELECT_PUBLIC_KEY = Inr False)"
proof (intro conjI impI)
  assume "sel AND OSSL_KEYMGMT_SELECT_PUBLIC_KEY \<noteq> 0 \<and>
      ((pubkey k1 \<noteq> None \<and> pubkey k2 \<noteq> None) \<or> oqs_name k1 \<noteq> oqs_name k2)"
  then show "oqsx_match k1 k2 sel = Inr False"
    by (simp add: oqsx_match_public_bit)
next
  assume "pubkey k \<noteq> None"
  moreover have "OSSL_KEYMGMT_SELECT_PUBLIC_KEY AND OSSL_KEYMGMT_SELECT_PUBLIC_KEY \<noteq> 0"
    by (simp add: sel_defs)
  ultimately show "oqsx_match k k OSSL_KEYMGMT_SELECT_PUBLIC_KEY = Inr False"
    by (simp add: oqsx_match_public_bit)
qed

theorem oqsx_match_public_false_witness:
  "OSSL_KEYMGMT_SELECT_KEYPAIR AND OSSL_KEYMGMT_SELECT_PUBLIC_KEY \<noteq> 0
   \<and> pubkey kyber768_key \<noteq> None \<and> pubkey kyber768_other \<noteq> None
   \<and> oqsx_match kyber768_key kyber768_other OSSL_KEYMGMT_SELECT_KEYPAIR = Inr False
   \<and> oqsx_match kyber768_key kyber768_key OSSL_KEYMGMT_SELECT_PUBLIC_KEY = Inr False"
  using oqsx_match_public_false
    [of OSSL_KEYMGMT_SELECT_KEYPAIR kyber768_key kyber768_other kyber768_key]
  by (simp add: kyber768_key_def kyber768_other_def sel_defs)




subsection \<open>oqsx_import\<close>

text \<open>
  C10. On a key object that is not null, \<^verbatim>\<open>oqsx_import\<close> with a selection in which the
  domain-parameter and other-parameter bits are all clear, such as the key-pair
  selection, returns failure and leaves the key object as it was, whatever the
  parameters hold and whatever \<^verbatim>\<open>oqsx_key_fromdata\<close> would do with them: it is not
  called.
\<close>

theorem oqsx_import_without_parameter_bits:
  assumes "sel AND OSSL_KEYMGMT_SELECT_ALL_PARAMETERS = 0"
  shows "oqsx_import fromdata (Some k) sel params =
           \<lparr>im_ret = False, im_key = Some k, im_errs = []\<rparr>"
  using assms by (simp add: oqsx_import_def)

theorem oqsx_import_without_parameter_bits_witness:
  "OSSL_KEYMGMT_SELECT_KEYPAIR AND OSSL_KEYMGMT_SELECT_ALL_PARAMETERS = 0
   \<and> oqsx_import (\<lambda>key ps include_private. (True, kyber768_key)) (Some kyber768_fresh)
        OSSL_KEYMGMT_SELECT_KEYPAIR [encoded_pub_1184] =
      \<lparr>im_ret = False, im_key = Some kyber768_fresh, im_errs = []\<rparr>"
proof -
  have h: "OSSL_KEYMGMT_SELECT_KEYPAIR AND OSSL_KEYMGMT_SELECT_ALL_PARAMETERS = 0"
    by (simp add: sel_defs)
  from oqsx_import_without_parameter_bits [OF h] h show ?thesis by simp
qed

subsection \<open>oqsx_set_params\<close>

text \<open>
  C7. When the parameters hold an encoded public key whose length is not the
  public-key length declared for the key object's algorithm (the object's
  \<open>pubkeylen\<close>), \<^verbatim>\<open>oqsx_set_params\<close> fails and leaves the whole key object, so its
  public and its private key, as it was; no buffer is released.
\<close>

theorem oqsx_set_params_wrong_length:
  assumes "OSSL_PARAM_locate_const params OSSL_PKEY_PARAM_ENCODED_PUBLIC_KEY = Some p"
    and "data_size p \<noteq> pubkeylen k"
  shows "sp_ret (oqsx_set_params malloc_ok strdup_ok k params) = False
         \<and> sp_key (oqsx_set_params malloc_ok strdup_ok k params) = k
         \<and> pubkey (sp_key (oqsx_set_params malloc_ok strdup_ok k params)) = pubkey k
         \<and> privkey (sp_key (oqsx_set_params malloc_ok strdup_ok k params)) = privkey k
         \<and> sp_cleared (oqsx_set_params malloc_ok strdup_ok k params) = []"
  using assms by (simp add: oqsx_set_params_def)

theorem oqsx_set_params_wrong_length_witness:
  "OSSL_PARAM_locate_const [encoded_pub_1183] OSSL_PKEY_PARAM_ENCODED_PUBLIC_KEY
     = Some encoded_pub_1183
   \<and> data_size encoded_pub_1183 \<noteq> pubkeylen kyber768_key
   \<and> sp_ret (oqsx_set_params True True kyber768_key [encoded_pub_1183]) = False
   \<and> sp_key (oqsx_set_params True True kyber768_key [encoded_pub_1183]) = kyber768_key"
proof -
  have l: "OSSL_PARAM_locate_const [encoded_pub_1183] OSSL_PKEY_PARAM_ENCODED_PUBLIC_KEY
             = Some encoded_pub_1183"
    by (simp add: encoded_pub_1183_def strcmp_def)
  have n: "data_size encoded_pub_1183 \<noteq> pubkeylen kyber768_key"
    by (simp add: encoded_pub_1183_def kyber768_key_def)
  from oqsx_set_params_wrong_length [OF l n, of True True] l n show ?thesis by simp
qed

text \<open>
  C3. After a call of \<^verbatim>\<open>oqsx_set_params\<close> that succeeds and whose parameters hold an
  encoded public key, the key object has no private key, so \<^verbatim>\<open>oqsx_has\<close> for the
  private key is false. A private key the object held, in a buffer of the declared
  length, was overwritten with zeros when its buffer was released.
\<close>

theorem oqsx_set_params_drops_private:
  assumes "OSSL_PARAM_locate_const params OSSL_PKEY_PARAM_ENCODED_PUBLIC_KEY = Some p"
    and "sp_ret (oqsx_set_params malloc_ok strdup_ok k params)"
  shows "privkey (sp_key (oqsx_set_params malloc_ok strdup_ok k params)) = None
         \<and> \<not> oqsx_has (Some (sp_key (oqsx_set_params malloc_ok strdup_ok k params)))
               OSSL_KEYMGMT_SELECT_PRIVATE_KEY
         \<and> (\<forall>b. privkey k = Some b \<and> length b = privkeylen k \<longrightarrow>
               sp_cleared (oqsx_set_params malloc_ok strdup_ok k params)
                 = [replicate (length b) 0])"
proof -
  let ?r = "oqsx_set_params malloc_ok strdup_ok k params"
  from assms obtain val used_len where
    size: "data_size p = pubkeylen k" and
    got: "OSSL_PARAM_get_octet_string malloc_ok p (pubkey k) (pubkeylen k)
            = Some (val, used_len)"
    by (auto simp add: oqsx_set_params_def split: if_splits option.splits)
  have priv: "privkey (sp_key ?r) = None"
    using assms(1) size got
    by (simp add: oqsx_set_params_def set_property_query_def Let_def
        split: option.splits)
  have cleared: "sp_cleared ?r = OPENSSL_clear_free (privkey k) (privkeylen k)"
    using assms(1) size got
    by (simp add: oqsx_set_params_def split: option.splits prod.splits)
  have has: "\<not> oqsx_has (Some (sp_key ?r)) OSSL_KEYMGMT_SELECT_PRIVATE_KEY"
    using priv by (simp add: oqsx_has_def Let_def sel_defs)
  from priv has cleared show ?thesis
    by (simp add: OPENSSL_clear_free_def)
qed

theorem oqsx_set_params_drops_private_witness:
  "OSSL_PARAM_locate_const [encoded_pub_1184] OSSL_PKEY_PARAM_ENCODED_PUBLIC_KEY
     = Some encoded_pub_1184
   \<and> sp_ret (oqsx_set_params True True kyber768_key [encoded_pub_1184])
   \<and> oqsx_has (Some kyber768_key) OSSL_KEYMGMT_SELECT_PRIVATE_KEY
   \<and> \<not> oqsx_has (Some (sp_key (oqsx_set_params True True kyber768_key [encoded_pub_1184])))
         OSSL_KEYMGMT_SELECT_PRIVATE_KEY
   \<and> sp_cleared (oqsx_set_params True True kyber768_key [encoded_pub_1184])
       = [replicate 2400 0]"
proof -
  have l: "OSSL_PARAM_locate_const [encoded_pub_1184] OSSL_PKEY_PARAM_ENCODED_PUBLIC_KEY
             = Some encoded_pub_1184"
    by (simp add: encoded_pub_1184_def strcmp_def)
  have r: "sp_ret (oqsx_set_params True True kyber768_key [encoded_pub_1184])"
    by (simp add: oqsx_set_params_def OSSL_PARAM_get_octet_string_def encoded_pub_1184_def
        kyber768_key_def strcmp_def OSSL_PKEY_PARAM_ENCODED_PUBLIC_KEY_def
        OSSL_PKEY_PARAM_PROPERTIES_def)
  have h: "oqsx_has (Some kyber768_key) OSSL_KEYMGMT_SELECT_PRIVATE_KEY"
    by (simp add: oqsx_has_def Let_def sel_defs kyber768_key_def)
  have b: "privkey kyber768_key = Some (replicate 2400 2)
           \<and> length (replicate 2400 (2 :: byte)) = privkeylen kyber768_key"
    by (simp add: kyber768_key_def)
  from oqsx_set_params_drops_private [OF l r] l r h b show ?thesis by simp
qed

subsection \<open>oqsx_export\<close>

text \<open>
  C6. When \<^verbatim>\<open>oqsx_export\<close> is called on a null key handle, or an allocation fails before
  the parameter array is built, it returns failure and the callback is not called at
  all. The callback is called at most once, only after every allocation has
  succeeded, with the finished array, and its result is then the result of the
  export.
\<close>

theorem oqsx_export_failure_without_callback:
  "(keydata = None \<or> \<not> bld_alloc_ok \<or> \<not> param_alloc_ok \<longrightarrow>
      ex_ret (oqsx_export bld_alloc_ok param_alloc_ok keydata sel cb) = False
      \<and> ex_calls (oqsx_export bld_alloc_ok param_alloc_ok keydata sel cb) = [])
   \<and> (ex_calls (oqsx_export bld_alloc_ok param_alloc_ok keydata sel cb) \<noteq> [] \<longrightarrow>
        keydata \<noteq> None \<and> bld_alloc_ok \<and> param_alloc_ok
        \<and> (\<exists>params.
              OSSL_PARAM_BLD_to_param param_alloc_ok [] = Some params
              \<and> ex_calls (oqsx_export bld_alloc_ok param_alloc_ok keydata sel cb) = [params]
              \<and> ex_ret (oqsx_export bld_alloc_ok param_alloc_ok keydata sel cb)
                  = cb params))"
  by (cases keydata) (simp_all add: oqsx_export_cases OSSL_PARAM_BLD_to_param_def)

theorem oqsx_export_failure_without_callback_witness:
  "ex_ret (oqsx_export True True None OSSL_KEYMGMT_SELECT_KEYPAIR (\<lambda>ps. True)) = False
   \<and> ex_calls (oqsx_export True True None OSSL_KEYMGMT_SELECT_KEYPAIR (\<lambda>ps. True)) = []
   \<and> ex_calls (oqsx_export False True (Some kyber768_key) OSSL_KEYMGMT_SELECT_KEYPAIR
        (\<lambda>ps. True)) = []
   \<and> ex_calls (oqsx_export True False (Some kyber768_key) OSSL_KEYMGMT_SELECT_KEYPAIR
        (\<lambda>ps. True)) = []
   \<and> length (ex_calls (oqsx_export True True (Some kyber768_key) OSSL_KEYMGMT_SELECT_KEYPAIR
        (\<lambda>ps. True))) = 1"
  using oqsx_export_failure_without_callback
      [of None True True OSSL_KEYMGMT_SELECT_KEYPAIR "\<lambda>ps. True"]
    oqsx_export_failure_without_callback
      [of "Some kyber768_key" False True OSSL_KEYMGMT_SELECT_KEYPAIR "\<lambda>ps. True"]
    oqsx_export_failure_without_callback
      [of "Some kyber768_key" True False OSSL_KEYMGMT_SELECT_KEYPAIR "\<lambda>ps. True"]
  by (simp add: oqsx_export_cases)

text \<open>
  C1 fails on the code. \<^verbatim>\<open>oqsx_export\<close> looks the two key parameters up in the local
  array \<^verbatim>\<open>params\<close> while it is still \<^verbatim>\<open>NULL\<close> and pushes nothing to the builder, so the
  array it hands to the callback is empty for every key. For the key pair of the
  example: the export with the key-pair selection succeeds and delivers the empty
  array; importing that array into a fresh object of the algorithm with the same
  selection fails and leaves the object without key material, for any
  \<^verbatim>\<open>oqsx_key_fromdata\<close>; and with any selection the import is given the array that the
  export of a different key pair delivers, so it cannot reproduce the bytes of both.
\<close>

theorem oqsx_export_import_loses_key:
  "oqsx_export True True (Some kyber768_key) OSSL_KEYMGMT_SELECT_KEYPAIR (\<lambda>ps. True)
     = \<lparr>ex_ret = True, ex_calls = [[]], ex_errs = []\<rparr>
   \<and> (\<forall>fromdata.
        oqsx_import fromdata (Some kyber768_fresh) OSSL_KEYMGMT_SELECT_KEYPAIR []
          = \<lparr>im_ret = False, im_key = Some kyber768_fresh, im_errs = []\<rparr>)
   \<and> pubkey kyber768_fresh \<noteq> pubkey kyber768_key
   \<and> privkey kyber768_fresh \<noteq> privkey kyber768_key
   \<and> ex_calls (oqsx_export True True (Some kyber768_other) OSSL_KEYMGMT_SELECT_KEYPAIR
        (\<lambda>ps. True))
       = ex_calls (oqsx_export True True (Some kyber768_key) OSSL_KEYMGMT_SELECT_KEYPAIR
           (\<lambda>ps. True))
   \<and> privkey kyber768_other \<noteq> privkey kyber768_key"
proof -
  have "OSSL_KEYMGMT_SELECT_KEYPAIR AND OSSL_KEYMGMT_SELECT_ALL_PARAMETERS = 0"
    by (simp add: sel_defs)
  then have "\<forall>fromdata.
        oqsx_import fromdata (Some kyber768_fresh) OSSL_KEYMGMT_SELECT_KEYPAIR []
          = \<lparr>im_ret = False, im_key = Some kyber768_fresh, im_errs = []\<rparr>"
    by (simp add: oqsx_import_def)
  then show ?thesis
    by (simp add: oqsx_export_cases kyber768_key_def kyber768_fresh_def kyber768_other_def)
qed

theorem oqsx_export_import_loses_key_witness:
  "ex_calls (oqsx_export True True (Some kyber768_key) OSSL_KEYMGMT_SELECT_KEYPAIR
     (\<lambda>ps. True)) = [[]]
   \<and> im_ret (oqsx_import (\<lambda>key ps include_private. (True, kyber768_key))
        (Some kyber768_fresh) OSSL_KEYMGMT_SELECT_KEYPAIR []) = False
   \<and> im_key (oqsx_import (\<lambda>key ps include_private. (True, kyber768_key))
        (Some kyber768_fresh) OSSL_KEYMGMT_SELECT_KEYPAIR []) = Some kyber768_fresh"
  using oqsx_export_import_loses_key by simp

subsection \<open>oqsx_load\<close>

text \<open>
  C8. When the declared size of the reference is the size of a key pointer,
  \<^verbatim>\<open>oqsx_load\<close> returns the key pointer stored in the cell and leaves null in the cell,
  all other cells as they were; for any other declared size it returns null and
  leaves the memory, the cell included, as it was.
\<close>

theorem oqsx_load_detaches:
  "(reference_sz = sizeof_key \<longrightarrow>
      fst (oqsx_load sizeof_key mem reference reference_sz) = mem reference
      \<and> snd (oqsx_load sizeof_key mem reference reference_sz) reference = None
      \<and> (\<forall>a. a \<noteq> reference \<longrightarrow>
            snd (oqsx_load sizeof_key mem reference reference_sz) a = mem a))
   \<and> (reference_sz \<noteq> sizeof_key \<longrightarrow>
        fst (oqsx_load sizeof_key mem reference reference_sz) = None
        \<and> snd (oqsx_load sizeof_key mem reference reference_sz) = mem)"
  by (simp add: oqsx_load_def Let_def)

theorem oqsx_load_detaches_witness:
  "fst (oqsx_load 8 ((\<lambda>a. None)(16 := Some kyber768_key)) 16 8) = Some kyber768_key
   \<and> snd (oqsx_load 8 ((\<lambda>a. None)(16 := Some kyber768_key)) 16 8) 16 = None
   \<and> fst (oqsx_load 8 ((\<lambda>a. None)(16 := Some kyber768_key)) 16 4) = None
   \<and> snd (oqsx_load 8 ((\<lambda>a. None)(16 := Some kyber768_key)) 16 4) 16 = Some kyber768_key"
  using oqsx_load_detaches [of 8 8 "(\<lambda>a. None)(16 := Some kyber768_key)" 16]
    oqsx_load_detaches [of 4 8 "(\<lambda>a. None)(16 := Some kyber768_key)" 16]
  by simp

end
